theory Spec2Isabelle
  imports Main "HOL-Library.Multiset" "HOL-Library.Sublist"
begin

section \<open>Values shared with the libraries the package calls\<close>

text \<open>
  The package \<open>dynamodblocal\<close> consists of \<open>dynamodb.go\<close> and
  \<open>dynamodb_local_endpoint_resolver.go\<close>. Everything it does goes through three libraries:
  testcontainers-go (the container handle and its launch request), go-connections (\<open>nat.Port\<close>)
  and the AWS SDK (configuration, credentials, the DynamoDB client). The values exchanged with
  them are modelled below with the fields the package reads or writes; the library functions
  the package calls are parameters, collected in the record \<open>external\<close>.

  A Go function returning \<open>(v, err)\<close> is a function into a pair whose second component is
  \<open>error option\<close>; \<open>None\<close> is the nil error. A pointer result that may be nil is an
  \<open>option\<close>.
\<close>

datatype error = Error string

text \<open>\<open>context.Context\<close>: the background context and contexts derived from it.\<close>

datatype "context" = Background | WithCancel "context" | WithTimeout "context" nat

text \<open>\<open>nat.Port\<close> is a string type, for example \<open>8000/tcp\<close>.\<close>

type_synonym nat_Port = string

text \<open>\<open>wait.Strategy\<close>: the one strategy the package constructs.\<close>

datatype wait_Strategy = ForListeningPort nat_Port

text \<open>
  \<open>testcontainers.ContainerRequest\<close> and \<open>testcontainers.GenericContainerRequest\<close>, which
  embeds it (so \<open>req.Cmd\<close>, \<open>req.Name\<close> are the embedded struct's fields). Fields the package
  never touches are left out; a field not set in a struct literal has Go's zero value
  (\<open>[]\<close>, \<open>''''\<close>, \<open>False\<close>, \<open>None\<close>).
\<close>

record ContainerRequest =
  Image' :: string
  ExposedPorts :: "string list"
  Cmd :: "string list"
  Name :: string
  WaitingFor :: "wait_Strategy option"

record GenericContainerRequest = ContainerRequest +
  Started :: bool
  Reuse :: bool

text \<open>
  \<open>testcontainers.CustomizeRequestOption\<close> is \<open>func(req *GenericContainerRequest)\<close>: a
  mutation of the request, here a function from the request to the updated request. Its method
  \<open>Customize\<close> calls it.
\<close>

type_synonym CustomizeRequestOption = "GenericContainerRequest \<Rightarrow> GenericContainerRequest"

definition Customize :: "CustomizeRequestOption \<Rightarrow> GenericContainerRequest \<Rightarrow> GenericContainerRequest" where
  "Customize opt req = opt req"

text \<open>
  \<open>testcontainers.Container\<close> is an interface; the package calls its methods \<open>MappedPort\<close>
  and \<open>Host\<close>. A value of the record is the container as it answers at the time of the call.
\<close>

record testcontainers_Container =
  MappedPort :: "context \<Rightarrow> nat_Port \<Rightarrow> nat_Port \<times> error option"
  Host :: "context \<Rightarrow> string \<times> error option"

text \<open>
  \<open>DynamodbLocalContainer\<close> embeds the interface value, which is nil (\<open>None\<close>) in the zero
  struct.
\<close>

record DynamodbLocalContainer =
  Container :: "testcontainers_Container option"

text \<open>The AWS SDK values handed to and received from \<open>config\<close> and \<open>dynamodb\<close>.\<close>

record aws_Credentials =
  AccessKeyID :: string
  SecretAccessKey :: string

datatype CredentialsProvider = StaticCredentialsProvider aws_Credentials

datatype LoadOption = WithCredentialsProvider CredentialsProvider

record aws_Config =
  Region :: string
  Credentials :: "CredentialsProvider option"

record url_URL =
  Scheme :: string
  URL_Host :: string

record smithyendpoints_Endpoint =
  URI :: url_URL

record DynamoDBLocalResolver =
  hostAndPort :: string

text \<open>
  \<open>dynamodb.NewFromConfig(cfg, optFns...)\<close> builds the client from a configuration and
  functional options; the client value records what it was built from.
\<close>

datatype dynamodb_OptFn = WithEndpointResolverV2 DynamoDBLocalResolver

datatype dynamodb_Client = NewFromConfig aws_Config "dynamodb_OptFn list"

text \<open>
  The library functions the package calls: \<open>(nat.Port).Port\<close>,
  \<open>testcontainers.GenericContainer\<close> and \<open>config.LoadDefaultConfig\<close>.
\<close>

record external =
  Port :: "nat_Port \<Rightarrow> string"
  GenericContainer :: "context \<Rightarrow> GenericContainerRequest \<Rightarrow> testcontainers_Container option \<times> error option"
  LoadDefaultConfig :: "context \<Rightarrow> LoadOption list \<Rightarrow> aws_Config \<times> error option"

text \<open>
  A method call on a nil interface value panics; \<open>Panic\<close> is that outcome, \<open>Returns\<close> a
  normal return.
\<close>

datatype 'a outcome = Panic | Returns 'a

section \<open>dynamodb\_local\_endpoint\_resolver.go\<close>

definition ResolveEndpoint ::
  "DynamoDBLocalResolver \<Rightarrow> context \<Rightarrow> 'params \<Rightarrow> smithyendpoints_Endpoint \<times> error option" where
  "ResolveEndpoint r ctx params =
     (\<lparr>URI = \<lparr>Scheme = ''http'', URL_Host = hostAndPort r\<rparr>\<rparr>, None)"

section \<open>dynamodb.go\<close>

definition image_const :: string where
  "image_const = ''amazon/dynamodb-local:2.2.1''"

definition port :: nat_Port where
  "port = ''8000/tcp''"

definition containerName :: string where
  "containerName = ''dynamodb_local''"

definition RunContainer ::
  "external \<Rightarrow> context \<Rightarrow> CustomizeRequestOption list \<Rightarrow> DynamodbLocalContainer option \<times> error option" where
  "RunContainer ext ctx opts =
     (let req = \<lparr>Image' = image_const, ExposedPorts = [port], Cmd = [], Name = '''',
                 WaitingFor = Some (ForListeningPort port)\<rparr>;
          genericContainerReq = ContainerRequest.extend req
                 \<lparr>Started = True, Reuse = False\<rparr>;
          genericContainerReq = foldl (\<lambda>r opt. Customize opt r) genericContainerReq opts
      in case GenericContainer ext ctx genericContainerReq of
           (container, Some err) \<Rightarrow> (None, Some err)
         | (container, None) \<Rightarrow> (Some \<lparr>Container = container\<rparr>, None))"

definition ConnectionString ::
  "external \<Rightarrow> DynamodbLocalContainer \<Rightarrow> context \<Rightarrow> (string \<times> error option) outcome" where
  "ConnectionString ext c ctx =
     (case Container c of
        None \<Rightarrow> Panic
      | Some t \<Rightarrow>
          (case MappedPort t ctx port of
             (mappedPort, Some err) \<Rightarrow> Returns ('''', Some err)
           | (mappedPort, None) \<Rightarrow>
               (case Host t ctx of
                  (hostIP, Some err) \<Rightarrow> Returns ('''', Some err)
                | (hostIP, None) \<Rightarrow> Returns (hostIP @ '':'' @ Port ext mappedPort, None))))"

definition GetDynamoDBClient ::
  "external \<Rightarrow> DynamodbLocalContainer \<Rightarrow> context \<Rightarrow> (dynamodb_Client option \<times> error option) outcome" where
  "GetDynamoDBClient ext c ctx =
     (case ConnectionString ext c Background of
        Panic \<Rightarrow> Panic
      | Returns (hostAndPort', Some err) \<Rightarrow> Returns (None, Some err)
      | Returns (hostAndPort', None) \<Rightarrow>
          (case LoadDefaultConfig ext Background
                  [WithCredentialsProvider (StaticCredentialsProvider
                     \<lparr>AccessKeyID = ''DUMMYIDEXAMPLE'', SecretAccessKey = ''DUMMYEXAMPLEKEY''\<rparr>)] of
             (cfg, Some err) \<Rightarrow> Returns (None, Some err)
           | (cfg, None) \<Rightarrow>
               Returns (Some (NewFromConfig cfg
                                [WithEndpointResolverV2 \<lparr>hostAndPort = hostAndPort'\<rparr>]), None)))"

definition WithSharedDB :: CustomizeRequestOption where
  "WithSharedDB req =
     (let req = (if length (Cmd req) > 0
                 then req\<lparr>Cmd := Cmd req @ [''-sharedDb'']\<rparr>
                 else req\<lparr>Cmd := Cmd req @ [''-jar'', ''DynamoDBLocal.jar'', ''-sharedDb'']\<rparr>);
          req = req\<lparr>Name := containerName\<rparr>
      in req\<lparr>Reuse := True\<rparr>)"

definition WithTelemetryDisabled :: CustomizeRequestOption where
  "WithTelemetryDisabled req =
     (if length (Cmd req) > 0
      then req\<lparr>Cmd := Cmd req @ [''-disableTelemetry'']\<rparr>
      else req\<lparr>Cmd := Cmd req @ [''-jar'', ''DynamoDBLocal.jar'', ''-disableTelemetry'']\<rparr>)"

section \<open>Concrete libraries and containers for the examples\<close>

text \<open>
  Values at which the theorems below are evaluated. \<open>example_external\<close> is a library whose
  \<open>Port\<close> cuts a \<open>nat.Port\<close> at the slash, whose \<open>GenericContainer\<close> refuses every request
  with an error that spells out the request's \<open>Cmd\<close>, and whose \<open>LoadDefaultConfig\<close>
  succeeds. \<open>running_docker\<close> answers both queries, \<open>stopped_docker\<close> fails the
  port-mapping query, \<open>hostless_docker\<close> fails the host query, and \<open>impatient_docker\<close>
  answers only under the background context; the handles of the same names wrap them.
\<close>

definition example_external :: external where
  "example_external =
     \<lparr>Port = takeWhile (\<lambda>ch. ch \<noteq> CHR ''/''),
      GenericContainer = (\<lambda>ctx req. (None, Some (Error (concat (Cmd req))))),
      LoadDefaultConfig = (\<lambda>ctx fns. (\<lparr>Region = ''local'', Credentials = None\<rparr>, None))\<rparr>"

definition running_docker :: testcontainers_Container where
  "running_docker =
     \<lparr>MappedPort = (\<lambda>ctx p. (''32768/tcp'', None)), Host = (\<lambda>ctx. (''localhost'', None))\<rparr>"

definition stopped_docker :: testcontainers_Container where
  "stopped_docker =
     \<lparr>MappedPort = (\<lambda>ctx p. ([], Some (Error ''container is not running''))),
      Host = (\<lambda>ctx. (''localhost'', None))\<rparr>"

definition hostless_docker :: testcontainers_Container where
  "hostless_docker =
     \<lparr>MappedPort = (\<lambda>ctx p. (''32768/tcp'', None)),
      Host = (\<lambda>ctx. ([], Some (Error ''no daemon host'')))\<rparr>"

definition impatient_docker :: testcontainers_Container where
  "impatient_docker =
     \<lparr>MappedPort = (\<lambda>ctx p. if ctx = Background then (''32768/tcp'', None)
                             else ([], Some (Error ''context canceled''))),
      Host = (\<lambda>ctx. (''localhost'', None))\<rparr>"

definition running_container :: DynamodbLocalContainer where
  "running_container = \<lparr>Container = Some running_docker\<rparr>"

definition stopped_container :: DynamodbLocalContainer where
  "stopped_container = \<lparr>Container = Some stopped_docker\<rparr>"

definition hostless_container :: DynamodbLocalContainer where
  "hostless_container = \<lparr>Container = Some hostless_docker\<rparr>"

definition impatient_container :: DynamodbLocalContainer where
  "impatient_container = \<lparr>Container = Some impatient_docker\<rparr>"

section \<open>Properties\<close>

subsection \<open>Helper facts about the two options\<close>

lemma Cmd_WithSharedDB:
  "Cmd (WithSharedDB req) =
     Cmd req @ (if Cmd req = [] then [''-jar'', ''DynamoDBLocal.jar''] else []) @ [''-sharedDb'']"
  by (simp add: WithSharedDB_def Let_def)

lemma Cmd_WithTelemetryDisabled:
  "Cmd (WithTelemetryDisabled req) =
     Cmd req @ (if Cmd req = [] then [''-jar'', ''DynamoDBLocal.jar''] else []) @ [''-disableTelemetry'']"
  by (simp add: WithTelemetryDisabled_def)

lemma Name_WithSharedDB: "Name (WithSharedDB req) = containerName"
  by (simp add: WithSharedDB_def Let_def)

lemma Reuse_WithSharedDB: "Reuse (WithSharedDB req) = True"
  by (simp add: WithSharedDB_def Let_def)

lemma Name_WithTelemetryDisabled: "Name (WithTelemetryDisabled req) = Name req"
  by (simp add: WithTelemetryDisabled_def)

lemma Reuse_WithTelemetryDisabled: "Reuse (WithTelemetryDisabled req) = Reuse req"
  by (simp add: WithTelemetryDisabled_def)

subsection \<open>Endpoint override\<close>

text \<open>
  C1. For every resolver, context and endpoint parameters, \<open>ResolveEndpoint\<close> returns the
  endpoint whose URI has the stored host:port string as \<open>Host\<close> and \<open>http\<close> as
  \<open>Scheme\<close>, with a nil error. The right-hand side mentions neither the context nor the
  parameters, and of the resolver only \<open>hostAndPort\<close>: the result depends on nothing else,
  and there is no error case.
\<close>

theorem ResolveEndpoint_fixed:
  "ResolveEndpoint r ctx params =
     (\<lparr>URI = \<lparr>Scheme = ''http'', URL_Host = hostAndPort r\<rparr>\<rparr>, None)
   \<and> URL_Host (URI (fst (ResolveEndpoint r ctx params))) = hostAndPort r
   \<and> Scheme (URI (fst (ResolveEndpoint r ctx params))) = ''http''
   \<and> snd (ResolveEndpoint r ctx params) = None
   \<and> ResolveEndpoint r ctx params = ResolveEndpoint \<lparr>hostAndPort = hostAndPort r\<rparr> ctx' params'"
  by (simp add: ResolveEndpoint_def)

subsection \<open>Configuration options\<close>

text \<open>
  C5. For every launch request, \<open>WithSharedDB\<close> puts the flag \<open>-sharedDb\<close> at the end of
  the \<open>Cmd\<close> list, after everything that was there (preceded by the base invocation when the
  list was empty), sets \<open>Name\<close> to \<open>dynamodb_local\<close> and sets \<open>Reuse\<close> to true.
\<close>

theorem WithSharedDB_effect:
  "Cmd (WithSharedDB req) =
     Cmd req @ (if Cmd req = [] then [''-jar'', ''DynamoDBLocal.jar''] else []) @ [''-sharedDb'']
   \<and> last (Cmd (WithSharedDB req)) = ''-sharedDb''
   \<and> Name (WithSharedDB req) = ''dynamodb_local''
   \<and> Reuse (WithSharedDB req) = True"
  by (simp add: Cmd_WithSharedDB Name_WithSharedDB Reuse_WithSharedDB containerName_def)

text \<open>
  C3. Applied to a request with an empty \<open>Cmd\<close>, each option sets \<open>Cmd\<close> to the base
  invocation \<open>-jar DynamoDBLocal.jar\<close> followed by its own flag. Applied to a request with a
  non-empty \<open>Cmd\<close>, each option adds only its own flag at the end; the elements that were
  there stay where they were.
\<close>

theorem option_first_or_later:
  "(Cmd req = [] \<longrightarrow>
      Cmd (WithSharedDB req) = [''-jar'', ''DynamoDBLocal.jar'', ''-sharedDb'']
      \<and> Cmd (WithTelemetryDisabled req) = [''-jar'', ''DynamoDBLocal.jar'', ''-disableTelemetry''])
   \<and> (Cmd req \<noteq> [] \<longrightarrow>
      Cmd (WithSharedDB req) = Cmd req @ [''-sharedDb'']
      \<and> Cmd (WithTelemetryDisabled req) = Cmd req @ [''-disableTelemetry'']
      \<and> take (length (Cmd req)) (Cmd (WithSharedDB req)) = Cmd req
      \<and> take (length (Cmd req)) (Cmd (WithTelemetryDisabled req)) = Cmd req)"
  by (simp add: Cmd_WithSharedDB Cmd_WithTelemetryDisabled)

theorem option_first_or_later_witness:
  "Cmd \<lparr>Image' = ''amazon/dynamodb-local:2.2.1'', ExposedPorts = [''8000/tcp''], Cmd = [],
        Name = [], WaitingFor = None, Started = True, Reuse = False\<rparr> = []
   \<and> Cmd (WithSharedDB \<lparr>Image' = ''amazon/dynamodb-local:2.2.1'', ExposedPorts = [''8000/tcp''],
        Cmd = [], Name = [], WaitingFor = None, Started = True, Reuse = False\<rparr>)
       = [''-jar'', ''DynamoDBLocal.jar'', ''-sharedDb'']
   \<and> Cmd (WithTelemetryDisabled \<lparr>Image' = ''amazon/dynamodb-local:2.2.1'',
        ExposedPorts = [''8000/tcp''], Cmd = [], Name = [], WaitingFor = None, Started = True,
        Reuse = False\<rparr>)
       = [''-jar'', ''DynamoDBLocal.jar'', ''-disableTelemetry'']
   \<and> Cmd \<lparr>Image' = ''amazon/dynamodb-local:2.2.1'', ExposedPorts = [''8000/tcp''],
        Cmd = [''-jar'', ''DynamoDBLocal.jar'', ''-inMemory''], Name = [], WaitingFor = None,
        Started = True, Reuse = False\<rparr> \<noteq> []
   \<and> Cmd (WithSharedDB \<lparr>Image' = ''amazon/dynamodb-local:2.2.1'', ExposedPorts = [''8000/tcp''],
        Cmd = [''-jar'', ''DynamoDBLocal.jar'', ''-inMemory''], Name = [], WaitingFor = None,
        Started = True, Reuse = False\<rparr>)
       = [''-jar'', ''DynamoDBLocal.jar'', ''-inMemory'', ''-sharedDb'']
   \<and> Cmd (WithTelemetryDisabled \<lparr>Image' = ''amazon/dynamodb-local:2.2.1'',
        ExposedPorts = [''8000/tcp''], Cmd = [''-jar'', ''DynamoDBLocal.jar'', ''-inMemory''],
        Name = [], WaitingFor = None, Started = True, Reuse = False\<rparr>)
       = [''-jar'', ''DynamoDBLocal.jar'', ''-inMemory'', ''-disableTelemetry'']"
  using
    option_first_or_later [of "\<lparr>Image' = ''amazon/dynamodb-local:2.2.1'',
        ExposedPorts = [''8000/tcp''], Cmd = [], Name = [], WaitingFor = None, Started = True,
        Reuse = False\<rparr>"]
    option_first_or_later [of "\<lparr>Image' = ''amazon/dynamodb-local:2.2.1'',
        ExposedPorts = [''8000/tcp''], Cmd = [''-jar'', ''DynamoDBLocal.jar'', ''-inMemory''],
        Name = [], WaitingFor = None, Started = True, Reuse = False\<rparr>"]
  by simp

text \<open>
  C2. Applying an option twice is not idempotent: after two applications of \<open>WithSharedDB\<close>
  (of \<open>WithTelemetryDisabled\<close>) the \<open>Cmd\<close> list ends with the option's flag twice, so the
  flag occurs two more times than before and the request differs from the one after a single
  application. The flags of two different options stand in the list in the order in which the
  options were applied.
\<close>

theorem option_twice_duplicates:
  "Cmd (WithSharedDB (WithSharedDB req)) =
     Cmd req @ (if Cmd req = [] then [''-jar'', ''DynamoDBLocal.jar''] else [])
       @ [''-sharedDb'', ''-sharedDb'']
   \<and> Cmd (WithTelemetryDisabled (WithTelemetryDisabled req)) =
     Cmd req @ (if Cmd req = [] then [''-jar'', ''DynamoDBLocal.jar''] else [])
       @ [''-disableTelemetry'', ''-disableTelemetry'']
   \<and> count_list (Cmd (WithSharedDB (WithSharedDB req))) ''-sharedDb''
       = count_list (Cmd req) ''-sharedDb'' + 2
   \<and> count_list (Cmd (WithTelemetryDisabled (WithTelemetryDisabled req))) ''-disableTelemetry''
       = count_list (Cmd req) ''-disableTelemetry'' + 2
   \<and> WithSharedDB (WithSharedDB req) \<noteq> WithSharedDB req
   \<and> WithTelemetryDisabled (WithTelemetryDisabled req) \<noteq> WithTelemetryDisabled req
   \<and> Cmd (WithTelemetryDisabled (WithSharedDB req)) =
     Cmd req @ (if Cmd req = [] then [''-jar'', ''DynamoDBLocal.jar''] else [])
       @ [''-sharedDb'', ''-disableTelemetry'']
   \<and> Cmd (WithSharedDB (WithTelemetryDisabled req)) =
     Cmd req @ (if Cmd req = [] then [''-jar'', ''DynamoDBLocal.jar''] else [])
       @ [''-disableTelemetry'', ''-sharedDb'']"
proof -
  have neqS: "WithSharedDB (WithSharedDB req) \<noteq> WithSharedDB req"
  proof
    assume "WithSharedDB (WithSharedDB req) = WithSharedDB req"
    then have "Cmd (WithSharedDB (WithSharedDB req)) = Cmd (WithSharedDB req)" by simp
    then show False by (simp add: Cmd_WithSharedDB)
  qed
  have neqT: "WithTelemetryDisabled (WithTelemetryDisabled req) \<noteq> WithTelemetryDisabled req"
  proof
    assume "WithTelemetryDisabled (WithTelemetryDisabled req) = WithTelemetryDisabled req"
    then have "Cmd (WithTelemetryDisabled (WithTelemetryDisabled req))
                 = Cmd (WithTelemetryDisabled req)" by simp
    then show False by (simp add: Cmd_WithTelemetryDisabled)
  qed
  show ?thesis
    using neqS neqT by (simp add: Cmd_WithSharedDB Cmd_WithTelemetryDisabled)
qed

text \<open>
  C4. Applying \<open>WithSharedDB\<close> and \<open>WithTelemetryDisabled\<close> in either order gives requests
  with the same multiset of \<open>Cmd\<close> flags, the same \<open>Name\<close> and the same \<open>Reuse\<close>; the two
  requests differ in nothing but \<open>Cmd\<close>, and the two \<open>Cmd\<close> lists differ only in the
  order of their last two flags, which is the order of application.
\<close>

theorem options_commute_up_to_order:
  "mset (Cmd (WithSharedDB (WithTelemetryDisabled req)))
     = mset (Cmd (WithTelemetryDisabled (WithSharedDB req)))
   \<and> Name (WithSharedDB (WithTelemetryDisabled req)) = Name (WithTelemetryDisabled (WithSharedDB req))
   \<and> Reuse (WithSharedDB (WithTelemetryDisabled req)) = Reuse (WithTelemetryDisabled (WithSharedDB req))
   \<and> WithSharedDB (WithTelemetryDisabled req)
     = (WithTelemetryDisabled (WithSharedDB req))
         \<lparr>Cmd := Cmd (WithSharedDB (WithTelemetryDisabled req))\<rparr>
   \<and> Cmd (WithTelemetryDisabled (WithSharedDB req)) =
     Cmd req @ (if Cmd req = [] then [''-jar'', ''DynamoDBLocal.jar''] else [])
       @ [''-sharedDb'', ''-disableTelemetry'']
   \<and> Cmd (WithSharedDB (WithTelemetryDisabled req)) =
     Cmd req @ (if Cmd req = [] then [''-jar'', ''DynamoDBLocal.jar''] else [])
       @ [''-disableTelemetry'', ''-sharedDb'']"
  by (simp add: WithSharedDB_def WithTelemetryDisabled_def Let_def)

text \<open>
  C6. No application of \<open>WithSharedDB\<close> or \<open>WithTelemetryDisabled\<close>, and no sequence of
  such applications (applied one after the other as \<open>RunContainer\<close> does), removes a flag:
  the \<open>Cmd\<close> list before is a prefix of the \<open>Cmd\<close> list after, so every flag that was
  present is still present, as often as before.
\<close>

theorem options_never_remove_flags:
  assumes "set opts \<subseteq> {WithSharedDB, WithTelemetryDisabled}"
  shows "prefix (Cmd req) (Cmd (foldl (\<lambda>r opt. Customize opt r) req opts))
         \<and> mset (Cmd req) \<subseteq># mset (Cmd (foldl (\<lambda>r opt. Customize opt r) req opts))"
proof -
  have step: "prefix (Cmd r) (Cmd (Customize opt r))"
    if "opt \<in> {WithSharedDB, WithTelemetryDisabled}" for opt r
    using that by (auto simp: Customize_def Cmd_WithSharedDB Cmd_WithTelemetryDisabled)
  have pre: "prefix (Cmd req) (Cmd (foldl (\<lambda>r opt. Customize opt r) req opts))"
    using assms
  proof (induction opts arbitrary: req)
    case Nil
    then show ?case by simp
  next
    case (Cons opt opts)
    have "prefix (Cmd req) (Cmd (Customize opt req))"
      using Cons.prems step by simp
    moreover have "prefix (Cmd (Customize opt req))
                     (Cmd (foldl (\<lambda>r opt. Customize opt r) (Customize opt req) opts))"
      using Cons.IH Cons.prems by simp
    ultimately show ?case
      using prefix_order.trans by fastforce
  qed
  then obtain zs where "Cmd (foldl (\<lambda>r opt. Customize opt r) req opts) = Cmd req @ zs"
    by (auto simp: prefix_def)
  then have "mset (Cmd req) \<subseteq># mset (Cmd (foldl (\<lambda>r opt. Customize opt r) req opts))"
    by simp
  with pre show ?thesis by simp
qed

theorem options_never_remove_flags_witness:
  "set [WithSharedDB, WithTelemetryDisabled, WithSharedDB] \<subseteq> {WithSharedDB, WithTelemetryDisabled}
   \<and> prefix [''-jar'', ''DynamoDBLocal.jar'', ''-inMemory'']
       (Cmd (foldl (\<lambda>r opt. Customize opt r)
          \<lparr>Image' = ''amazon/dynamodb-local:2.2.1'', ExposedPorts = [''8000/tcp''],
           Cmd = [''-jar'', ''DynamoDBLocal.jar'', ''-inMemory''], Name = [], WaitingFor = None,
           Started = True, Reuse = False\<rparr>
          [WithSharedDB, WithTelemetryDisabled, WithSharedDB]))
   \<and> mset [''-jar'', ''DynamoDBLocal.jar'', ''-inMemory'']
       \<subseteq># mset (Cmd (foldl (\<lambda>r opt. Customize opt r)
          \<lparr>Image' = ''amazon/dynamodb-local:2.2.1'', ExposedPorts = [''8000/tcp''],
           Cmd = [''-jar'', ''DynamoDBLocal.jar'', ''-inMemory''], Name = [], WaitingFor = None,
           Started = True, Reuse = False\<rparr>
          [WithSharedDB, WithTelemetryDisabled, WithSharedDB]))"
proof -
  have h: "set [WithSharedDB, WithTelemetryDisabled, WithSharedDB]
             \<subseteq> {WithSharedDB, WithTelemetryDisabled}"
    by simp
  show ?thesis
    using h options_never_remove_flags [OF h,
      of "\<lparr>Image' = ''amazon/dynamodb-local:2.2.1'', ExposedPorts = [''8000/tcp''],
           Cmd = [''-jar'', ''DynamoDBLocal.jar'', ''-inMemory''], Name = [], WaitingFor = None,
           Started = True, Reuse = False\<rparr>"]
    by simp
qed

subsection \<open>Connection target and client factory\<close>

text \<open>
  C8. For a container handle, \<open>ConnectionString\<close> asks the container for the mapped port of
  \<open>8000/tcp\<close> and for the host, under the caller's context. When both queries succeed it
  returns the host, a colon and the port number of the mapped port, with a nil error. When the
  port-mapping query fails, as it does for a stopped container, it returns the empty string and
  that query's error unchanged; the same holds when only the host query fails.
\<close>

theorem ConnectionString_result:
  assumes "Container c = Some t"
  shows "(snd (MappedPort t ctx ''8000/tcp'') = None \<and> snd (Host t ctx) = None \<longrightarrow>
            ConnectionString ext c ctx =
              Returns (fst (Host t ctx) @ '':'' @ Port ext (fst (MappedPort t ctx ''8000/tcp'')),
                       None))
         \<and> (\<forall>err. snd (MappedPort t ctx ''8000/tcp'') = Some err \<longrightarrow>
            ConnectionString ext c ctx = Returns ([], Some err))
         \<and> (\<forall>err. snd (MappedPort t ctx ''8000/tcp'') = None \<and> snd (Host t ctx) = Some err \<longrightarrow>
            ConnectionString ext c ctx = Returns ([], Some err))"
  using assms by (simp add: ConnectionString_def port_def split: prod.splits option.splits)

theorem ConnectionString_result_witness:
  "Container running_container = Some running_docker
   \<and> snd (MappedPort running_docker (WithCancel Background) ''8000/tcp'') = None
   \<and> snd (Host running_docker (WithCancel Background)) = None
   \<and> ConnectionString example_external running_container (WithCancel Background)
     = Returns (''localhost:32768'', None)
   \<and> Container stopped_container = Some stopped_docker
   \<and> snd (MappedPort stopped_docker (WithCancel Background) ''8000/tcp'')
     = Some (Error ''container is not running'')
   \<and> ConnectionString example_external stopped_container (WithCancel Background)
     = Returns ([], Some (Error ''container is not running''))
   \<and> Container hostless_container = Some hostless_docker
   \<and> snd (MappedPort hostless_docker (WithCancel Background) ''8000/tcp'') = None
   \<and> snd (Host hostless_docker (WithCancel Background)) = Some (Error ''no daemon host'')
   \<and> ConnectionString example_external hostless_container (WithCancel Background)
     = Returns ([], Some (Error ''no daemon host''))"
proof -
  have run: "Container running_container = Some running_docker"
    by (simp add: running_container_def)
  have stop: "Container stopped_container = Some stopped_docker"
    by (simp add: stopped_container_def)
  have nohost: "Container hostless_container = Some hostless_docker"
    by (simp add: hostless_container_def)
  show ?thesis
    using run stop nohost
      ConnectionString_result [OF run, of "WithCancel Background" example_external]
      ConnectionString_result [OF stop, of "WithCancel Background" example_external]
      ConnectionString_result [OF nohost, of "WithCancel Background" example_external]
    by (simp add: example_external_def running_docker_def stopped_docker_def
        hostless_docker_def)
qed

text \<open>
  C7. When resolving the connection target fails, \<open>GetDynamoDBClient\<close> returns a nil client
  and exactly the error \<open>ConnectionString\<close> returned, whatever context the caller passed.
\<close>

theorem GetDynamoDBClient_propagates_error:
  assumes "ConnectionString ext c Background = Returns (s, Some err)"
  shows "GetDynamoDBClient ext c ctx = Returns (None, Some err)"
  using assms by (simp add: GetDynamoDBClient_def)

theorem GetDynamoDBClient_propagates_error_witness:
  "ConnectionString example_external stopped_container Background
     = Returns ([], Some (Error ''container is not running''))
   \<and> GetDynamoDBClient example_external stopped_container (WithTimeout Background 5)
     = Returns (None, Some (Error ''container is not running''))"
proof -
  have h: "ConnectionString example_external stopped_container Background
             = Returns ([], Some (Error ''container is not running''))"
    by (simp add: ConnectionString_def stopped_container_def stopped_docker_def)
  show ?thesis
    using h GetDynamoDBClient_propagates_error [OF h, of "WithTimeout Background 5"]
    by simp
qed

text \<open>
  C10. \<open>GetDynamoDBClient\<close> ignores its context argument: for the same library and container
  state, any two contexts give the same result, which is the result under the background
  context.
\<close>

theorem GetDynamoDBClient_ignores_context:
  "GetDynamoDBClient ext c ctx1 = GetDynamoDBClient ext c ctx2
   \<and> GetDynamoDBClient ext c ctx1 = GetDynamoDBClient ext c Background"
  by (simp add: GetDynamoDBClient_def)

text \<open>
  An example of what that means: a container that answers only under the background context
  fails \<open>ConnectionString\<close> under a cancelled context, and still yields a client under it.
\<close>

lemma GetDynamoDBClient_context_example:
  "ConnectionString example_external impatient_container (WithCancel Background)
     = Returns ([], Some (Error ''context canceled''))
   \<and> GetDynamoDBClient example_external impatient_container (WithCancel Background)
     = Returns (Some (NewFromConfig \<lparr>Region = ''local'', Credentials = None\<rparr>
                        [WithEndpointResolverV2 \<lparr>hostAndPort = ''localhost:32768''\<rparr>]), None)"
  by (simp add: GetDynamoDBClient_def ConnectionString_def impatient_container_def
      impatient_docker_def example_external_def port_def)

subsection \<open>Launch\<close>

text \<open>
  C9. \<open>RunContainer\<close> starts from the request with image \<open>amazon/dynamodb-local:2.2.1\<close>, the
  single exposed port \<open>8000/tcp\<close> and the wait strategy for that port to listen, applies the
  supplied options to it from first to last, and hands the result to \<open>GenericContainer\<close>
  under the caller's context. When that returns no error, \<open>RunContainer\<close> returns a handle
  around the container and a nil error; when it returns an error, \<open>RunContainer\<close> returns a
  nil handle and that error.
\<close>

theorem RunContainer_launch:
  "RunContainer ext ctx opts =
     (case GenericContainer ext ctx
             (foldl (\<lambda>r opt. Customize opt r)
                \<lparr>Image' = ''amazon/dynamodb-local:2.2.1'', ExposedPorts = [''8000/tcp''],
                 Cmd = [], Name = [], WaitingFor = Some (ForListeningPort ''8000/tcp''),
                 Started = True, Reuse = False\<rparr> opts) of
        (container, Some err) \<Rightarrow> (None, Some err)
      | (container, None) \<Rightarrow> (Some \<lparr>Container = container\<rparr>, None))
   \<and> RunContainer ext ctx [opt1, opt2] =
     (case GenericContainer ext ctx
             (opt2 (opt1
                \<lparr>Image' = ''amazon/dynamodb-local:2.2.1'', ExposedPorts = [''8000/tcp''],
                 Cmd = [], Name = [], WaitingFor = Some (ForListeningPort ''8000/tcp''),
                 Started = True, Reuse = False\<rparr>)) of
        (container, Some err) \<Rightarrow> (None, Some err)
      | (container, None) \<Rightarrow> (Some \<lparr>Container = container\<rparr>, None))"
  by (simp add: RunContainer_def Customize_def image_const_def port_def
      ContainerRequest.extend_def Let_def)

text \<open>
  An example: with a library that reports the request's \<open>Cmd\<close> in its error, the flags of
  two options arrive in the order the options were given.
\<close>

lemma RunContainer_example:
  "RunContainer example_external Background [WithSharedDB, WithTelemetryDisabled]
     = (None, Some (Error ''-jarDynamoDBLocal.jar-sharedDb-disableTelemetry''))
   \<and> RunContainer example_external Background [WithTelemetryDisabled, WithSharedDB]
     = (None, Some (Error ''-jarDynamoDBLocal.jar-disableTelemetry-sharedDb''))"
  by (simp add: RunContainer_def Customize_def ContainerRequest.extend_def Let_def
      WithSharedDB_def WithTelemetryDisabled_def example_external_def)

end
